theory Spec2Isabelle
  imports Main "HOL-Library.Sublist"
begin

section \<open>Values decoded from JSON and the Python operations applied to them\<close>

text \<open>
  The seven scripts of the repository (\<^verbatim>\<open>test_simple.py\<close>, \<^verbatim>\<open>test_permissions.py\<close>,
  \<^verbatim>\<open>test_complete.py\<close>, \<^verbatim>\<open>test_final.py\<close>, \<^verbatim>\<open>test_mcp.py\<close>, \<^verbatim>\<open>test_tool_execution.py\<close>,
  \<^verbatim>\<open>debug_session.py\<close>) each spawn the server, write JSON-RPC requests to its standard
  input, read one line per request from its standard output and print what they find.

  A value returned by \<^verbatim>\<open>json.loads\<close> is a \<open>json\<close>. A Python dict is an association list
  in which the first binding of a key is the one that counts. Strings are lists of
  8-bit characters. \<open>JFloat m e\<close> stands for a number that is not an integer; no script
  treats it differently from any other number.
\<close>

datatype json =
    JNull
  | JBool bool
  | JInt int
  | JFloat int int
  | JStr string
  | JArr "json list"
  | JObj "(string \<times> json) list"

text \<open>The exceptions the modelled statements can raise; all are subclasses of
  \<^verbatim>\<open>Exception\<close>. \<open>UnboundLocalError\<close> is the subclass of \<^verbatim>\<open>NameError\<close> that Python raises
  for a local name read before it is bound.\<close>

datatype exn =
    BrokenPipeError
  | JSONDecodeError
  | KeyError
  | TypeError
  | AttributeError
  | IndexError
  | UnboundLocalError

definition ebind :: "exn + 'a \<Rightarrow> ('a \<Rightarrow> exn + 'b) \<Rightarrow> exn + 'b" where
  "ebind v f = (case v of Inl e \<Rightarrow> Inl e | Inr x \<Rightarrow> f x)"

text \<open>\<^verbatim>\<open>k in j\<close>: key membership for a dict, element membership for a list, substring test
  for a string, \<^verbatim>\<open>TypeError\<close> for \<^verbatim>\<open>None\<close>, booleans and numbers.\<close>

fun py_in :: "string \<Rightarrow> json \<Rightarrow> exn + bool" where
  "py_in k (JObj kvs) = Inr (k \<in> set (map fst kvs))"
| "py_in k (JArr xs) = Inr (JStr k \<in> set xs)"
| "py_in k (JStr s) = Inr (sublist k s)"
| "py_in k JNull = Inl TypeError"
| "py_in k (JBool b) = Inl TypeError"
| "py_in k (JInt i) = Inl TypeError"
| "py_in k (JFloat m e) = Inl TypeError"

text \<open>\<^verbatim>\<open>j[k]\<close> with a string key: \<^verbatim>\<open>KeyError\<close> for a dict without the key, \<^verbatim>\<open>TypeError\<close>
  for every value that is not a dict.\<close>

fun py_item :: "json \<Rightarrow> string \<Rightarrow> exn + json" where
  "py_item (JObj kvs) k = (case map_of kvs k of None \<Rightarrow> Inl KeyError | Some v \<Rightarrow> Inr v)"
| "py_item JNull k = Inl TypeError"
| "py_item (JBool b) k = Inl TypeError"
| "py_item (JInt i) k = Inl TypeError"
| "py_item (JFloat m e) k = Inl TypeError"
| "py_item (JStr s) k = Inl TypeError"
| "py_item (JArr xs) k = Inl TypeError"

text \<open>\<^verbatim>\<open>j.get(k, d)\<close>: only a dict has the method.\<close>

fun py_get :: "json \<Rightarrow> string \<Rightarrow> json \<Rightarrow> exn + json" where
  "py_get (JObj kvs) k d = Inr (case map_of kvs k of None \<Rightarrow> d | Some v \<Rightarrow> v)"
| "py_get JNull k d = Inl AttributeError"
| "py_get (JBool b) k d = Inl AttributeError"
| "py_get (JInt i) k d = Inl AttributeError"
| "py_get (JFloat m e) k d = Inl AttributeError"
| "py_get (JStr s) k d = Inl AttributeError"
| "py_get (JArr xs) k d = Inl AttributeError"

text \<open>\<^verbatim>\<open>len(j)\<close>.\<close>

fun py_len :: "json \<Rightarrow> exn + nat" where
  "py_len (JObj kvs) = Inr (length (remdups (map fst kvs)))"
| "py_len (JArr xs) = Inr (length xs)"
| "py_len (JStr s) = Inr (length s)"
| "py_len JNull = Inl TypeError"
| "py_len (JBool b) = Inl TypeError"
| "py_len (JInt i) = Inl TypeError"
| "py_len (JFloat m e) = Inl TypeError"

text \<open>The elements a \<^verbatim>\<open>for\<close> loop over \<open>j\<close> visits: the elements of a list, the keys of a
  dict, the characters of a string.\<close>

fun py_iter :: "json \<Rightarrow> exn + json list" where
  "py_iter (JArr xs) = Inr xs"
| "py_iter (JObj kvs) = Inr (map JStr (remdups (map fst kvs)))"
| "py_iter (JStr s) = Inr (map (\<lambda>c. JStr [c]) s)"
| "py_iter JNull = Inl TypeError"
| "py_iter (JBool b) = Inl TypeError"
| "py_iter (JInt i) = Inl TypeError"
| "py_iter (JFloat m e) = Inl TypeError"

text \<open>\<^verbatim>\<open>j[0]\<close>: the first element of a list or the first character of a string; a dict
  decoded from JSON has string keys only, so the key \<open>0\<close> is missing.\<close>

fun py_first :: "json \<Rightarrow> exn + json" where
  "py_first (JArr xs) = (case xs of [] \<Rightarrow> Inl IndexError | x # _ \<Rightarrow> Inr x)"
| "py_first (JStr s) = (case s of [] \<Rightarrow> Inl IndexError | c # _ \<Rightarrow> Inr (JStr [c]))"
| "py_first (JObj kvs) = Inl KeyError"
| "py_first JNull = Inl TypeError"
| "py_first (JBool b) = Inl TypeError"
| "py_first (JInt i) = Inl TypeError"
| "py_first (JFloat m e) = Inl TypeError"

text \<open>\<^verbatim>\<open>s.lower()\<close> on the ASCII letters; only a string has the method.\<close>

definition lower_char :: "char \<Rightarrow> char" where
  "lower_char c =
     (let n = (of_char c :: nat) in if 65 \<le> n \<and> n \<le> 90 then char_of (n + 32) else c)"

fun py_lower :: "json \<Rightarrow> exn + string" where
  "py_lower (JStr s) = Inr (map lower_char s)"
| "py_lower JNull = Inl AttributeError"
| "py_lower (JBool b) = Inl AttributeError"
| "py_lower (JInt i) = Inl AttributeError"
| "py_lower (JFloat m e) = Inl AttributeError"
| "py_lower (JArr xs) = Inl AttributeError"
| "py_lower (JObj kvs) = Inl AttributeError"

section \<open>The child process and the trace of a run\<close>

text \<open>
  What \<^verbatim>\<open>process.stdout.readline()\<close> returns, seen through \<^verbatim>\<open>json.loads(line.strip())\<close>:
  \<open>Eof\<close> is the empty string of a closed stream, \<open>Malformed\<close> a non-empty line that is
  not JSON text, \<open>Json j\<close> a line that decodes to \<open>j\<close>.

  The server is a list of replies, one per request: \<open>BrokenPipe\<close> is a server that has
  exited (the write raises), \<open>Silent\<close> a server that neither writes a line nor closes its
  output (\<^verbatim>\<open>readline\<close> has no timeout and never returns), \<open>Line l\<close> a server that lets
  \<^verbatim>\<open>readline\<close> return \<open>l\<close>. A server whose list is used up has closed its output.
\<close>

datatype line = Eof | Malformed | Json json

datatype reply = BrokenPipe | Silent | Line line

datatype event =
    Spawn
  | Write json
  | Flush
  | Read line
  | Print string
  | Traceback exn
  | Terminate
  | Wait

record world =
  pending :: "reply list"
  trace :: "event list"

datatype 'a outcome = Done 'a | Raised exn | Hung

type_synonym 'a run = "'a outcome \<times> world"
type_synonym 'a prog = "world \<Rightarrow> 'a run"

definition emit :: "event \<Rightarrow> world \<Rightarrow> world" where
  "emit e w = w\<lparr>trace := trace w @ [e]\<rparr>"

definition ret :: "'a \<Rightarrow> 'a prog" where
  "ret x w = (Done x, w)"

definition and_then :: "'a prog \<Rightarrow> ('a \<Rightarrow> 'b prog) \<Rightarrow> 'b prog" where
  "and_then m f w =
     (case m w of
        (Done x, w') \<Rightarrow> f x w'
      | (Raised e, w') \<Rightarrow> (Raised e, w')
      | (Hung, w') \<Rightarrow> (Hung, w'))"

definition seq :: "unit prog \<Rightarrow> 'a prog \<Rightarrow> 'a prog" where
  "seq m k = and_then m (\<lambda>_. k)"

definition py :: "exn + 'a \<Rightarrow> 'a prog" where
  "py v w = (case v of Inl e \<Rightarrow> (Raised e, w) | Inr x \<Rightarrow> (Done x, w))"

definition print :: "string \<Rightarrow> unit prog" where
  "print m w = (Done (), emit (Print m) w)"

text \<open>\<^verbatim>\<open>traceback.print_exc()\<close> inside a handler that caught \<open>e\<close>.\<close>

definition print_exc :: "exn \<Rightarrow> unit prog" where
  "print_exc e w = (Done (), emit (Traceback e) w)"

text \<open>\<^verbatim>\<open>process.stdin.write(json.dumps(req) + '\n')\<close>, \<^verbatim>\<open>process.stdin.flush()\<close> and
  \<^verbatim>\<open>process.stdout.readline()\<close>.\<close>

definition stdin_write :: "json \<Rightarrow> unit prog" where
  "stdin_write req w =
     (case pending w of
        BrokenPipe # _ \<Rightarrow> (Raised BrokenPipeError, w)
      | _ \<Rightarrow> (Done (), emit (Write req) w))"

definition stdin_flush :: "unit prog" where
  "stdin_flush w = (Done (), emit Flush w)"

definition stdout_readline :: "line prog" where
  "stdout_readline w =
     (case pending w of
        [] \<Rightarrow> (Done Eof, emit (Read Eof) w)
      | Silent # _ \<Rightarrow> (Hung, w)
      | BrokenPipe # rest \<Rightarrow> (Done Eof, emit (Read Eof) (w\<lparr>pending := rest\<rparr>))
      | Line l # rest \<Rightarrow> (Done l, emit (Read l) (w\<lparr>pending := rest\<rparr>)))"

text \<open>The three statements always come together: write the request, flush, read a line.\<close>

definition round_trip :: "json \<Rightarrow> line prog" where
  "round_trip req = seq (stdin_write req) (seq stdin_flush stdout_readline)"

text \<open>\<^verbatim>\<open>json.loads(line.strip())\<close>.\<close>

fun json_loads :: "line \<Rightarrow> exn + json" where
  "json_loads (Json j) = Inr j"
| "json_loads Malformed = Inl JSONDecodeError"
| "json_loads Eof = Inl JSONDecodeError"

text \<open>\<^verbatim>\<open>try: body except Exception as e: handler\<close> and \<^verbatim>\<open>try: ... finally: ...\<close>. A run that
  hangs inside the body reaches neither.\<close>

definition except_Exception :: "'a prog \<Rightarrow> (exn \<Rightarrow> 'a prog) \<Rightarrow> 'a prog" where
  "except_Exception body handler w =
     (case body w of
        (Raised e, w') \<Rightarrow> handler e w'
      | r \<Rightarrow> r)"

definition try_finally :: "'a prog \<Rightarrow> (world \<Rightarrow> world) \<Rightarrow> 'a prog" where
  "try_finally body fin w =
     (case body w of
        (Hung, w') \<Rightarrow> (Hung, w')
      | (r, w') \<Rightarrow> (r, fin w'))"

text \<open>\<^verbatim>\<open>process.terminate()\<close> followed by \<^verbatim>\<open>process.wait()\<close>.\<close>

definition shutdown :: "world \<Rightarrow> world" where
  "shutdown w = emit Wait (emit Terminate w)"

text \<open>\<^verbatim>\<open>subprocess.Popen(['./target/debug/forge', '--mcp'], ...)\<close>; the launch itself is
  taken to succeed. A script starts in \<open>start env\<close>, where \<open>env\<close> is the server.\<close>

definition popen :: "unit prog" where
  "popen w = (Done (), emit Spawn w)"

definition start :: "reply list \<Rightarrow> world" where
  "start env = \<lparr>pending = env, trace = []\<rparr>"

section \<open>The requests\<close>

definition request :: "int \<Rightarrow> string \<Rightarrow> json \<Rightarrow> json" where
  "request i m params =
     JObj [(''jsonrpc'', JStr ''2.0''), (''id'', JInt i), (''method'', JStr m), (''params'', params)]"

definition initialize_params :: "string \<Rightarrow> json" where
  "initialize_params client =
     JObj [(''protocolVersion'', JStr ''2024-11-05''),
           (''capabilities'', JObj []),
           (''clientInfo'', JObj [(''name'', JStr client), (''version'', JStr ''1.0.0'')])]"

definition init_request :: json where
  "init_request = request 1 ''initialize'' (initialize_params ''test-client'')"

definition session_params :: json where
  "session_params = JObj [(''client_name'', JStr ''test-client''), (''client_version'', JStr ''1.0.0'')]"

definition list_directory_params :: json where
  "list_directory_params =
     JObj [(''name'', JStr ''list_directory''),
           (''arguments'', JObj [(''path'', JStr ''.''), (''max_depth'', JInt 1)])]"

section \<open>\<^verbatim>\<open>test_simple.py\<close>\<close>

text \<open>The loop of lines 65-66 (and of \<^verbatim>\<open>test_permissions.py\<close>, lines 67-68):
  \<^verbatim>\<open>print(f"- {tool['name']}: {tool['description']}")\<close> for each tool.\<close>

fun print_tools :: "json list \<Rightarrow> unit prog" where
  "print_tools [] w = (Done (), w)"
| "print_tools (tool # rest) w =
     (case ebind (py_item tool ''name'') (\<lambda>_. py_item tool ''description'') of
        Inl e \<Rightarrow> (Raised e, w)
      | Inr _ \<Rightarrow> print_tools rest (emit (Print ''- {name}: {description}'') w))"

text \<open>Lines 49-72. The local name \<^verbatim>\<open>tools\<close> is bound only in the branch of line 63.\<close>

definition simple_list_tools :: "unit prog" where
  "simple_list_tools =
     seq (print ''2. Testing tools list...'')
     (and_then (round_trip (request 2 ''tools/list'' (JObj []))) (\<lambda>l.
      and_then (py (json_loads l)) (\<lambda>response.
      and_then (py (py_in ''result'' response)) (\<lambda>has_result.
      and_then
        (if has_result then
           and_then (py (ebind (py_item response ''result'') (\<lambda>r. py_item r ''tools''))) (\<lambda>tools.
           and_then (py (py_len tools)) (\<lambda>_.
           seq (print ''Found {len(tools)} tools:'')
           (and_then (py (py_iter tools)) (\<lambda>ts.
            seq (print_tools ts) (ret (Some tools))))))
         else seq (print ''Failed: {response}'') (ret None))
        (\<lambda>tools.
           seq (print ''Basic MCP functionality working!'')
           (and_then (py (case tools of None \<Rightarrow> Inl UnboundLocalError | Some t \<Rightarrow> py_len t)) (\<lambda>_.
            seq (print ''Available tools: {len(tools)} filesystem tools'')
                (print ''Ready for Claude Code integration via stdio transport''))))))))"

text \<open>Lines 21-47, followed by the rest of the body unless line 47 returns.\<close>

definition simple_body :: "unit prog" where
  "simple_body =
     seq (print ''1. Testing initialization...'')
     (and_then (round_trip init_request) (\<lambda>l.
      and_then (py (json_loads l)) (\<lambda>response.
      and_then (py (py_in ''result'' response)) (\<lambda>has_result.
        if has_result then
          and_then (py (ebind (py_item response ''result'') (\<lambda>r. py_item r ''serverInfo''))) (\<lambda>server_info.
          and_then (py (ebind (py_item server_info ''name'') (\<lambda>_. py_item server_info ''version''))) (\<lambda>_.
          seq (print ''Server: {name} v{version}'')
          (and_then (py (ebind (py_item response ''result'') (\<lambda>r. py_item r ''protocolVersion''))) (\<lambda>_.
           seq (print ''Protocol: {protocolVersion}'') simple_list_tools))))
        else print ''Failed: {response}''))))"

definition test_basic_functionality :: "unit prog" where
  "test_basic_functionality =
     seq popen
     (seq (print ''Testing Forge MCP Server'')
       (try_finally
          (except_Exception simple_body
             (\<lambda>e. seq (print ''Error: {e}'') (print_exc e)))
          shutdown))"

section \<open>\<^verbatim>\<open>test_mcp.py\<close>\<close>

text \<open>Lines 41-47 and 61-67: \<^verbatim>\<open>if response_line:\<close> is true for every line but the empty
  string of a closed stream.\<close>

definition mcp_show :: "string \<Rightarrow> line \<Rightarrow> unit prog" where
  "mcp_show label l =
     (if l \<noteq> Eof then and_then (py (json_loads l)) (\<lambda>_. print label)
      else print ''No response received'')"

definition mcp_body :: "unit prog" where
  "mcp_body =
     seq (print ''Sending initialize request...'')
     (and_then (round_trip init_request) (\<lambda>l.
      seq (mcp_show ''Initialize response: {response}'' l)
      (seq (print ''Sending tools/list request...'')
      (and_then (round_trip (request 2 ''tools/list'' (JObj []))) (\<lambda>l.
       mcp_show ''Tools list response: {response}'' l)))))"

definition test_mcp_server :: "unit prog" where
  "test_mcp_server =
     seq popen
       (try_finally (except_Exception mcp_body (\<lambda>e. print ''Error: {e}'')) shutdown)"

section \<open>\<^verbatim>\<open>debug_session.py\<close>\<close>

definition debug_body :: "unit prog" where
  "debug_body =
     and_then (round_trip (request 1 ''initialize'' (JObj []))) (\<lambda>_.
     seq (print ''Init response: {init_response}'')
     (and_then (round_trip (request 2 ''session/create'' (JObj []))) (\<lambda>_.
      print ''Session response: {session_response}'')))"

definition debug_session :: "unit prog" where
  "debug_session =
     seq popen
       (try_finally (except_Exception debug_body (\<lambda>e. print ''Error: {e}'')) shutdown)"

section \<open>\<^verbatim>\<open>test_tool_execution.py\<close>\<close>

text \<open>Lines 50-72.\<close>

definition execution_call_tool :: "unit prog" where
  "execution_call_tool =
     and_then (round_trip (request 3 ''tools/call'' list_directory_params)) (\<lambda>l.
     and_then (py (json_loads l)) (\<lambda>tool_response.
     and_then (py (py_in ''result'' tool_response)) (\<lambda>has_result.
       if has_result then
         seq (print ''Tool execution successful!'')
         (and_then (py (ebind (py_item tool_response ''result'')
                          (\<lambda>r. ebind (py_get r ''files'' (JArr [])) py_len))) (\<lambda>_.
          print ''Directory contents: {len(files)} items''))
       else print ''Tool execution failed: {tool_response}'')))"

text \<open>Lines 20-48, followed by the tool call.\<close>

definition execution_body :: "unit prog" where
  "execution_body =
     and_then (round_trip (request 1 ''initialize'' (JObj []))) (\<lambda>_.
     seq (print ''Initialized'')
     (and_then (round_trip (request 2 ''session/create'' session_params)) (\<lambda>l.
      and_then (py (json_loads l)) (\<lambda>session_response.
      and_then (py (ebind (py_item session_response ''result'') (\<lambda>r. py_item r ''session_id''))) (\<lambda>_.
      seq (print ''Created session: {session_id}'') execution_call_tool)))))"

definition test_tool_execution :: "unit prog" where
  "test_tool_execution =
     seq popen
       (try_finally (except_Exception execution_body (\<lambda>e. print ''Error: {e}'')) shutdown)"

section \<open>\<^verbatim>\<open>test_complete.py\<close>\<close>

text \<open>Line 37 (and \<^verbatim>\<open>test_final.py\<close>, line 38):
  \<^verbatim>\<open>print("Initialize:", "OK" if "result" in init_response else f"ERROR: {init_response}")\<close>.\<close>

definition print_initialize :: "json \<Rightarrow> unit prog" where
  "print_initialize init_response =
     and_then (py (py_in ''result'' init_response)) (\<lambda>ok.
       if ok then print ''Initialize: OK'' else print ''Initialize: ERROR: {init_response}'')"

text \<open>Lines 58-82.\<close>

definition complete_call_tool :: "unit prog" where
  "complete_call_tool =
     and_then (round_trip (request 3 ''tools/call'' list_directory_params)) (\<lambda>l.
     and_then (py (json_loads l)) (\<lambda>tool_response.
     and_then (py (py_in ''result'' tool_response)) (\<lambda>has_result.
       if has_result then
         seq (print ''Tool execution successful!'')
         (and_then (py (py_item tool_response ''result'')) (\<lambda>result.
          and_then (py (py_in ''files'' result)) (\<lambda>has_files.
            if has_files then
              and_then (py (ebind (py_item result ''files'') py_len)) (\<lambda>_.
                print ''Found {len(files)} files/directories'')
            else ret ())))
       else print ''Tool execution failed: {tool_response}'')))"

text \<open>Lines 39-56 and 83-84.\<close>

definition complete_create_session :: "unit prog" where
  "complete_create_session =
     and_then (round_trip (request 2 ''session/create'' session_params)) (\<lambda>l.
     and_then (py (json_loads l)) (\<lambda>session_response.
     and_then (py (py_in ''result'' session_response)) (\<lambda>has_result.
       if has_result then
         and_then (py (ebind (py_item session_response ''result'') (\<lambda>r. py_item r ''session_id''))) (\<lambda>_.
         seq (print ''Session created: {session_id}'') complete_call_tool)
       else print ''Session creation failed: {session_response}'')))"

definition complete_body :: "unit prog" where
  "complete_body =
     and_then (round_trip init_request) (\<lambda>l.
     and_then (py (json_loads l)) (\<lambda>init_response.
     seq (print_initialize init_response) complete_create_session))"

definition test_complete :: "unit prog" where
  "test_complete =
     seq popen
       (try_finally
          (except_Exception complete_body
             (\<lambda>e. seq (print ''Error: {e}'') (print_exc e)))
          shutdown)"

section \<open>\<^verbatim>\<open>test_final.py\<close>\<close>

text \<open>The session request of lines 41-52; \<open>now\<close> is \<^verbatim>\<open>int(time.time())\<close>.\<close>

definition final_session_params :: "int \<Rightarrow> json" where
  "final_session_params now =
     JObj [(''client_name'', JStr ''test-client''),
           (''client_version'', JStr ''1.0.0''),
           (''user_id'', JStr ''test-user''),
           (''capabilities'', JArr [JStr ''tools'']),
           (''connection_time'', JInt now)]"

definition read_file_params :: json where
  "read_file_params =
     JObj [(''name'', JStr ''read_file''),
           (''arguments'', JObj [(''path'', JStr ''Cargo.toml''), (''max_size'', JInt 1000)])]"

text \<open>Lines 78-101.\<close>

definition final_read_file :: "unit prog" where
  "final_read_file =
     and_then (round_trip (request 4 ''tools/call'' read_file_params)) (\<lambda>l.
     and_then (py (json_loads l)) (\<lambda>read_response.
     and_then (py (py_in ''result'' read_response)) (\<lambda>has_result.
       if has_result then
         seq (print ''File read successful!'')
         (and_then (py (ebind (py_item read_response ''result'')
                          (\<lambda>r. ebind (py_get r ''content'' (JStr [])) py_len))) (\<lambda>_.
          print ''Read {len(content)} characters''))
       else print ''File read failed: {read_response}'')))"

text \<open>Lines 62-76 and 102-103.\<close>

definition final_list_tools :: "unit prog" where
  "final_list_tools =
     and_then (round_trip (request 3 ''tools/list'' (JObj []))) (\<lambda>l.
     and_then (py (json_loads l)) (\<lambda>tools_response.
     and_then (py (py_in ''result'' tools_response)) (\<lambda>has_result.
       if has_result then
         and_then (py (ebind (py_item tools_response ''result'')
                         (\<lambda>r. ebind (py_item r ''tools'') py_len))) (\<lambda>_.
         seq (print ''Listed {len(tools)} tools'') final_read_file)
       else print ''Tools list failed: {tools_response}'')))"

text \<open>Lines 40-60 and 104-105.\<close>

definition final_create_session :: "int \<Rightarrow> unit prog" where
  "final_create_session now =
     and_then (round_trip (request 2 ''session/create'' (final_session_params now))) (\<lambda>l.
     and_then (py (json_loads l)) (\<lambda>session_response.
     and_then (py (py_in ''result'' session_response)) (\<lambda>has_result.
       if has_result then
         and_then (py (ebind (py_item session_response ''result'') (\<lambda>r. py_item r ''session_id''))) (\<lambda>_.
         seq (print ''Session created: {session_id}'') final_list_tools)
       else print ''Session creation failed: {session_response}'')))"

definition final_body :: "int \<Rightarrow> unit prog" where
  "final_body now =
     and_then (round_trip init_request) (\<lambda>l.
     and_then (py (json_loads l)) (\<lambda>init_response.
     seq (print_initialize init_response) (final_create_session now)))"

definition test_mcp :: "int \<Rightarrow> unit prog" where
  "test_mcp now =
     seq popen
       (try_finally
          (except_Exception (final_body now)
             (\<lambda>e. seq (print ''Error: {e}'') (print_exc e)))
          shutdown)"

section \<open>\<^verbatim>\<open>test_permissions.py\<close>\<close>

definition create_block_params :: json where
  "create_block_params =
     JObj [(''name'', JStr ''create_block''),
           (''arguments'',
            JObj [(''name'', JStr ''Test Permission Block''),
                  (''description'', JStr ''Testing if block creation works with current permissions'')])]"

definition list_blocks_params :: json where
  "list_blocks_params = JObj [(''name'', JStr ''list_blocks''), (''arguments'', JObj [])]"

text \<open>Lines 129-133. The inner \<^verbatim>\<open>json.loads\<close>, applied to the text of the tool result, is
  the parameter \<open>loads\<close> (\<open>None\<close> when it raises); a bare \<^verbatim>\<open>except\<close> catches everything.\<close>

definition count_blocks :: "(string \<Rightarrow> json option) \<Rightarrow> json \<Rightarrow> exn + nat" where
  "count_blocks loads response =
     ebind (py_item response ''result'') (\<lambda>r.
     ebind (py_item r ''content'') (\<lambda>c.
     ebind (py_first c) (\<lambda>x.
     ebind (py_item x ''text'') (\<lambda>t.
       case t of
         JStr text \<Rightarrow> (case loads text of None \<Rightarrow> Inl JSONDecodeError | Some d \<Rightarrow> py_len d)
       | _ \<Rightarrow> Inl TypeError))))"

text \<open>Lines 124-133: the verdict on the response to \<^verbatim>\<open>list_blocks\<close>.\<close>

definition check_list_blocks :: "(string \<Rightarrow> json option) \<Rightarrow> json \<Rightarrow> unit prog" where
  "check_list_blocks loads response =
     and_then (py (py_in ''error'' response)) (\<lambda>has_error.
       if has_error then
         and_then (py (ebind (py_item response ''error'') (\<lambda>e. py_item e ''message''))) (\<lambda>_.
           print ''Error: {message}'')
       else
         and_then (py (py_in ''result'' response)) (\<lambda>has_result.
           if has_result then
             seq (print ''List blocks succeeded - read permission is working'')
               (case count_blocks loads response of
                  Inr _ \<Rightarrow> print ''Found {len(result_data)} blocks''
                | Inl _ \<Rightarrow> print ''Block list retrieved successfully'')
           else ret ()))"

text \<open>Lines 94-102: the verdict on the response to \<^verbatim>\<open>create_block\<close>.\<close>

definition check_create_block :: "json \<Rightarrow> unit prog" where
  "check_create_block response =
     and_then (py (py_in ''error'' response)) (\<lambda>has_error.
       if has_error then
         and_then (py (ebind (py_item response ''error'') (\<lambda>e. py_item e ''message''))) (\<lambda>_.
         seq (print ''Expected permission error: {message}'')
         (and_then (py (ebind (py_item response ''error'') (\<lambda>e. ebind (py_item e ''message'') py_lower))) (\<lambda>lowered.
           if sublist ''permission'' lowered then
             print ''Permission system is working - correctly blocking unauthorized access''
           else
             and_then (py (ebind (py_item response ''error'') (\<lambda>e. py_item e ''message''))) (\<lambda>_.
               print ''Unexpected error (not permission-related): {message}''))))
       else
         and_then (py (py_in ''result'' response)) (\<lambda>has_result.
           if has_result then
             seq (print ''Block creation succeeded - permissions may be too permissive!'')
             (and_then (py (py_item response ''result'')) (\<lambda>_. print ''Result: {result}''))
           else ret ()))"

text \<open>Lines 106-135. The value is what the body of the \<^verbatim>\<open>try\<close> returns: \<open>Some b\<close> for
  \<^verbatim>\<open>return b\<close>, \<open>None\<close> when the body runs to its end.\<close>

definition permissions_list_blocks :: "(string \<Rightarrow> json option) \<Rightarrow> bool option prog" where
  "permissions_list_blocks loads =
     seq (print ''4. Testing list_blocks tool (should work with read permission)...'')
     (and_then (round_trip (request 4 ''tools/call'' list_blocks_params)) (\<lambda>response_line.
      seq
        (if response_line \<noteq> Eof then
           and_then (py (json_loads response_line)) (check_list_blocks loads)
         else print ''No response received'')
        (ret None)))"

text \<open>Lines 73-104, then the fourth test.\<close>

definition permissions_create_block :: "(string \<Rightarrow> json option) \<Rightarrow> bool option prog" where
  "permissions_create_block loads =
     seq (print ''3. Testing create_block tool (should fail with permission error)...'')
     (and_then (round_trip (request 3 ''tools/call'' create_block_params)) (\<lambda>response_line.
      seq
        (if response_line \<noteq> Eof then
           and_then (py (json_loads response_line)) check_create_block
         else print ''No response received'')
        (permissions_list_blocks loads)))"

text \<open>Lines 50-71, then the third test.\<close>

definition permissions_list_tools :: "(string \<Rightarrow> json option) \<Rightarrow> bool option prog" where
  "permissions_list_tools loads =
     seq (print ''2. Checking available tools...'')
     (and_then (round_trip (request 2 ''tools/list'' (JObj []))) (\<lambda>response_line.
        if response_line \<noteq> Eof then
          and_then (py (json_loads response_line)) (\<lambda>response.
          and_then (py (ebind (py_get response ''result'' (JObj [])) (\<lambda>r. py_get r ''tools'' (JArr [])))) (\<lambda>tools.
          and_then (py (py_len tools)) (\<lambda>_.
          seq (print ''Available tools: {len(tools)}'')
          (and_then (py (py_iter tools)) (\<lambda>ts.
           seq (print_tools ts) (permissions_create_block loads))))))
        else seq (print ''No response received'') (ret (Some False))))"

text \<open>Lines 23-48, then the second test.\<close>

definition permissions_body :: "(string \<Rightarrow> json option) \<Rightarrow> bool option prog" where
  "permissions_body loads =
     seq (print ''1. Sending initialize request...'')
     (and_then (round_trip (request 1 ''initialize'' (initialize_params ''permission-test-client''))) (\<lambda>response_line.
        if response_line \<noteq> Eof then
          and_then (py (json_loads response_line)) (\<lambda>response.
          and_then (py (ebind (py_get response ''result'' (JObj [])) (\<lambda>r. py_get r ''server_info'' (JObj [])))) (\<lambda>_.
          seq (print ''Initialize response: {server_info}'') (permissions_list_tools loads)))
        else seq (print ''No response received'') (ret (Some False))))"

text \<open>Lines 10-144: \<^verbatim>\<open>return True\<close> is reached when neither the body nor the handler
  returned.\<close>

definition test_mcp_permissions :: "(string \<Rightarrow> json option) \<Rightarrow> bool prog" where
  "test_mcp_permissions loads =
     seq popen
     (and_then
        (try_finally
           (except_Exception (permissions_body loads)
              (\<lambda>e. seq (print ''Error during testing: {e}'') (ret (Some False))))
           shutdown)
        (\<lambda>returned. ret (case returned of Some b \<Rightarrow> b | None \<Rightarrow> True)))"

section \<open>The scripts as processes\<close>





section \<open>Responses used as concrete inputs\<close>

text \<open>A success response and an error response with the given id, as the server writes
  them: \<^verbatim>\<open>{"jsonrpc": "2.0", "id": i, "result": r}\<close> and
  \<^verbatim>\<open>{"jsonrpc": "2.0", "id": i, "error": {"code": c, "message": m}}\<close>.\<close>

definition result_response :: "int \<Rightarrow> json \<Rightarrow> json" where
  "result_response i r = JObj [(''jsonrpc'', JStr ''2.0''), (''id'', JInt i), (''result'', r)]"

definition error_response :: "int \<Rightarrow> int \<Rightarrow> string \<Rightarrow> json" where
  "error_response i c m =
     JObj [(''jsonrpc'', JStr ''2.0''), (''id'', JInt i),
           (''error'', JObj [(''code'', JInt c), (''message'', JStr m)])]"

definition initialize_result :: json where
  "initialize_result =
     JObj [(''protocolVersion'', JStr ''2024-11-05''),
           (''serverInfo'', JObj [(''name'', JStr ''forge''), (''version'', JStr ''0.1.0'')]),
           (''capabilities'', JObj [])]"

definition tools_result :: json where
  "tools_result =
     JObj [(''tools'',
            JArr [JObj [(''name'', JStr ''read_file''), (''description'', JStr ''Read a file'')],
                  JObj [(''name'', JStr ''list_directory''), (''description'', JStr ''List a directory'')]])]"

definition session_result :: json where
  "session_result = JObj [(''session_id'', JStr ''session-1'')]"

text \<open>A server that answers the four requests of \<^verbatim>\<open>test_final.py\<close> with results.\<close>

definition healthy_final :: "reply list" where
  "healthy_final =
     [Line (Json (result_response 1 initialize_result)),
      Line (Json (result_response 2 session_result)),
      Line (Json (result_response 3 tools_result)),
      Line (Json (result_response 4 (JObj [(''content'', JStr ''[package]'')])))]"

text \<open>A line that carries both an \<^verbatim>\<open>error\<close> and a \<^verbatim>\<open>result\<close>.\<close>

definition error_and_result_response :: "int \<Rightarrow> json" where
  "error_and_result_response i =
     JObj [(''jsonrpc'', JStr ''2.0''), (''id'', JInt i),
           (''error'', JObj [(''code'', JInt (- 32000)), (''message'', JStr ''busy'')]),
           (''result'', JObj [(''content'', JArr [])])]"


lemmas sample_defs =
  result_response_def error_response_def initialize_result_def tools_result_def session_result_def
  error_and_result_response_def

section \<open>What a run is measured against\<close>

text \<open>The requests of each script, in the order of the source.\<close>

definition simple_requests :: "json list" where
  "simple_requests = [init_request, request 2 ''tools/list'' (JObj [])]"

definition mcp_requests :: "json list" where
  "mcp_requests = [init_request, request 2 ''tools/list'' (JObj [])]"

definition debug_requests :: "json list" where
  "debug_requests = [request 1 ''initialize'' (JObj []), request 2 ''session/create'' (JObj [])]"

definition execution_requests :: "json list" where
  "execution_requests =
     [request 1 ''initialize'' (JObj []),
      request 2 ''session/create'' session_params,
      request 3 ''tools/call'' list_directory_params]"

definition complete_requests :: "json list" where
  "complete_requests =
     [init_request,
      request 2 ''session/create'' session_params,
      request 3 ''tools/call'' list_directory_params]"

definition final_requests :: "int \<Rightarrow> json list" where
  "final_requests now =
     [init_request,
      request 2 ''session/create'' (final_session_params now),
      request 3 ''tools/list'' (JObj []),
      request 4 ''tools/call'' read_file_params]"

definition permissions_requests :: "json list" where
  "permissions_requests =
     [request 1 ''initialize'' (initialize_params ''permission-test-client''),
      request 2 ''tools/list'' (JObj []),
      request 3 ''tools/call'' create_block_params,
      request 4 ''tools/call'' list_blocks_params]"

lemmas requests_defs =
  simple_requests_def mcp_requests_def debug_requests_def execution_requests_def
  complete_requests_def final_requests_def permissions_requests_def

text \<open>The events on the pipes, and the strictly sequential conversation in which the
  requests \<open>rs\<close> are put to the server \<open>env\<close> one after the other: each request is written
  and flushed, then one line is read, and only then is the next request written. A
  broken pipe ends the conversation before the write, a silent server after the flush.\<close>

fun is_io :: "event \<Rightarrow> bool" where
  "is_io (Write r) = True"
| "is_io Flush = True"
| "is_io (Read l) = True"
| "is_io Spawn = False"
| "is_io (Print m) = False"
| "is_io (Traceback e) = False"
| "is_io Terminate = False"
| "is_io Wait = False"

fun dialogue :: "json list \<Rightarrow> reply list \<Rightarrow> event list" where
  "dialogue [] env = []"
| "dialogue (r # rs) [] = Write r # Flush # Read Eof # dialogue rs []"
| "dialogue (r # rs) (BrokenPipe # env) = []"
| "dialogue (r # rs) (Silent # env) = [Write r, Flush]"
| "dialogue (r # rs) (Line l # env) = Write r # Flush # Read l # dialogue rs env"

text \<open>The requests written in a trace, and the \<^verbatim>\<open>id\<close> of a request.\<close>

fun sent :: "event list \<Rightarrow> json list" where
  "sent [] = []"
| "sent (Write r # t) = r # sent t"
| "sent (Spawn # t) = sent t"
| "sent (Flush # t) = sent t"
| "sent (Read l # t) = sent t"
| "sent (Print m # t) = sent t"
| "sent (Traceback e # t) = sent t"
| "sent (Terminate # t) = sent t"
| "sent (Wait # t) = sent t"

definition id_of :: "json \<Rightarrow> int option" where
  "id_of r = (case py_item r ''id'' of Inr (JInt i) \<Rightarrow> Some i | _ \<Rightarrow> None)"

text \<open>One request at a time: no request is written while the read that follows the
  previous request has not returned. The flag says whether such a read is awaited.\<close>

fun one_at_a_time :: "bool \<Rightarrow> event list \<Rightarrow> bool" where
  "one_at_a_time awaiting [] = True"
| "one_at_a_time awaiting (Write r # t) = (\<not> awaiting \<and> one_at_a_time True t)"
| "one_at_a_time awaiting (Read l # t) = one_at_a_time False t"
| "one_at_a_time awaiting (Spawn # t) = one_at_a_time awaiting t"
| "one_at_a_time awaiting (Flush # t) = one_at_a_time awaiting t"
| "one_at_a_time awaiting (Print m # t) = one_at_a_time awaiting t"
| "one_at_a_time awaiting (Traceback e # t) = one_at_a_time awaiting t"
| "one_at_a_time awaiting (Terminate # t) = one_at_a_time awaiting t"
| "one_at_a_time awaiting (Wait # t) = one_at_a_time awaiting t"

text \<open>The words of the specification, ``a request is outstanding until its response is
  consumed'': a request is written only when no earlier request is still without a
  response line. Reading the end of the stream consumes no response.\<close>

fun no_request_while_outstanding :: "bool \<Rightarrow> event list \<Rightarrow> bool" where
  "no_request_while_outstanding outstanding [] = True"
| "no_request_while_outstanding outstanding (Write r # t) =
     (\<not> outstanding \<and> no_request_while_outstanding True t)"
| "no_request_while_outstanding outstanding (Read Eof # t) =
     no_request_while_outstanding outstanding t"
| "no_request_while_outstanding outstanding (Read Malformed # t) =
     no_request_while_outstanding False t"
| "no_request_while_outstanding outstanding (Read (Json j) # t) =
     no_request_while_outstanding False t"
| "no_request_while_outstanding outstanding (Spawn # t) = no_request_while_outstanding outstanding t"
| "no_request_while_outstanding outstanding (Flush # t) = no_request_while_outstanding outstanding t"
| "no_request_while_outstanding outstanding (Print m # t) = no_request_while_outstanding outstanding t"
| "no_request_while_outstanding outstanding (Traceback e # t) = no_request_while_outstanding outstanding t"
| "no_request_while_outstanding outstanding (Terminate # t) = no_request_while_outstanding outstanding t"
| "no_request_while_outstanding outstanding (Wait # t) = no_request_while_outstanding outstanding t"

text \<open>The row of the method table for \<^verbatim>\<open>initialize\<close>: the parameters hold
  \<^verbatim>\<open>protocolVersion\<close>, \<^verbatim>\<open>capabilities\<close> and \<^verbatim>\<open>clientInfo\<close> with \<^verbatim>\<open>name\<close> and \<^verbatim>\<open>version\<close>.\<close>

definition initialize_complete :: "json \<Rightarrow> bool" where
  "initialize_complete r =
     (case py_item r ''params'' of
        Inr p \<Rightarrow>
          py_in ''protocolVersion'' p = Inr True \<and> py_in ''capabilities'' p = Inr True \<and>
          (case py_item p ''clientInfo'' of
             Inr c \<Rightarrow> py_in ''name'' c = Inr True \<and> py_in ''version'' c = Inr True
           | Inl _ \<Rightarrow> False)
      | Inl _ \<Rightarrow> False)"

section \<open>A Hoare logic for the scripts\<close>

text \<open>\<open>triple P p Q E H\<close>: from a world that satisfies \<open>P\<close>, the program \<open>p\<close> ends in a world
  that satisfies \<open>Q x\<close> when it returns \<open>x\<close>, \<open>E\<close> when it raises and \<open>H\<close> when it hangs.\<close>

definition triple ::
  "(world \<Rightarrow> bool) \<Rightarrow> 'a prog \<Rightarrow> ('a \<Rightarrow> world \<Rightarrow> bool) \<Rightarrow> (world \<Rightarrow> bool) \<Rightarrow> (world \<Rightarrow> bool) \<Rightarrow> bool" where
  "triple P p Q E H =
     (\<forall>w. P w \<longrightarrow>
        (case p w of
           (Done x, w') \<Rightarrow> Q x w'
         | (Raised e, w') \<Rightarrow> E w'
         | (Hung, w') \<Rightarrow> H w'))"

text \<open>The conversation of the requests \<open>R\<close> with the server \<open>env\<close> has completed \<open>k\<close> round
  trips; and: the events on the pipes so far are the beginning of that conversation.\<close>

definition at_step :: "json list \<Rightarrow> reply list \<Rightarrow> nat \<Rightarrow> world \<Rightarrow> bool" where
  "at_step R env k w \<longleftrightarrow>
     k \<le> length R \<and> pending w = drop k env \<and>
     filter is_io (trace w) @ dialogue (drop k R) (drop k env) = dialogue R env"

definition on_script :: "json list \<Rightarrow> reply list \<Rightarrow> world \<Rightarrow> bool" where
  "on_script R env w \<longleftrightarrow> prefix (filter is_io (trace w)) (dialogue R env)"

text \<open>A server that never stays silent; and a child that has not been told to terminate.\<close>

definition responsive :: "world \<Rightarrow> bool" where
  "responsive w \<longleftrightarrow> Silent \<notin> set (pending w)"

definition running :: "world \<Rightarrow> bool" where
  "running w \<longleftrightarrow> Terminate \<notin> set (trace w)"

text \<open>The request \<open>r\<close> has been written; and: the pipe to the child is not broken.\<close>

definition written :: "json \<Rightarrow> world \<Rightarrow> bool" where
  "written r w \<longleftrightarrow> Write r \<in> set (trace w)"


section \<open>Basic facts about the combinators\<close>

lemmas run_defs =
  and_then_def seq_def ret_def py_def print_def print_exc_def stdin_write_def stdin_flush_def
  stdout_readline_def round_trip_def except_Exception_def try_finally_def shutdown_def
  popen_def emit_def ebind_def start_def

lemmas request_defs =
  request_def initialize_params_def init_request_def session_params_def
  list_directory_params_def final_session_params_def read_file_params_def
  create_block_params_def list_blocks_params_def

lemmas script_defs =
  test_basic_functionality_def simple_body_def simple_list_tools_def
  test_mcp_server_def mcp_body_def mcp_show_def
  debug_session_def debug_body_def
  test_tool_execution_def execution_body_def execution_call_tool_def
  test_complete_def complete_body_def complete_create_session_def complete_call_tool_def
  print_initialize_def
  test_mcp_def final_body_def final_create_session_def final_list_tools_def final_read_file_def
  test_mcp_permissions_def permissions_body_def permissions_list_tools_def
  permissions_create_block_def permissions_list_blocks_def check_create_block_def
  check_list_blocks_def count_blocks_def


lemma json_loads_Inr [simp]: "json_loads l = Inr j \<longleftrightarrow> l = Json j"
  by (cases l) auto






section \<open>Rules of the Hoare logic\<close>

lemma tripleI:
  "(\<And>w. P w \<Longrightarrow> (case p w of (Done x, w') \<Rightarrow> Q x w' | (Raised e, w') \<Rightarrow> E w' | (Hung, w') \<Rightarrow> H w'))
   \<Longrightarrow> triple P p Q E H"
  by (simp add: triple_def)

lemma tripleD:
  "triple P p Q E H \<Longrightarrow> P w \<Longrightarrow>
   (case p w of (Done x, w') \<Rightarrow> Q x w' | (Raised e, w') \<Rightarrow> E w' | (Hung, w') \<Rightarrow> H w')"
  by (simp add: triple_def)

lemma triple_and_then:
  assumes m: "triple P m Q' E H" and f: "\<And>x. triple (Q' x) (f x) Q E H"
  shows "triple P (and_then m f) Q E H"
proof (rule tripleI)
  fix w assume "P w"
  from tripleD [OF m this] show
    "case and_then m f w of (Done x, w') \<Rightarrow> Q x w' | (Raised e, w') \<Rightarrow> E w' | (Hung, w') \<Rightarrow> H w'"
  proof (cases "m w")
    case (Pair r w1)
    with tripleD [OF m \<open>P w\<close>] show ?thesis
      by (cases r) (auto simp: and_then_def dest: tripleD [OF f])
  qed
qed


lemma triple_seq:
  "triple P m Q' E H \<Longrightarrow> triple (Q' ()) k Q E H \<Longrightarrow> triple P (seq m k) Q E H"
  unfolding seq_def by (rule triple_and_then) auto

lemma triple_if:
  "(b \<Longrightarrow> triple P p Q E H) \<Longrightarrow> (\<not> b \<Longrightarrow> triple P q Q E H) \<Longrightarrow>
   triple P (if b then p else q) Q E H"
  by simp

lemma triple_case_sum:
  "(\<And>e. v = Inl e \<Longrightarrow> triple P (f e) Q E H) \<Longrightarrow> (\<And>x. v = Inr x \<Longrightarrow> triple P (g x) Q E H) \<Longrightarrow>
   triple P (case v of Inl e \<Rightarrow> f e | Inr x \<Rightarrow> g x) Q E H"
  by (cases v) auto

lemma triple_except:
  assumes b: "triple P body (\<lambda>_. F) F H" and h: "\<And>e. triple F (handler e) (\<lambda>_. F) F H"
  shows "triple P (except_Exception body handler) (\<lambda>_. F) F H"
proof (rule tripleI)
  fix w assume "P w"
  show "case except_Exception body handler w of
          (Done x, w') \<Rightarrow> F w' | (Raised e, w') \<Rightarrow> F w' | (Hung, w') \<Rightarrow> H w'"
  proof (cases "body w")
    case (Pair r w1)
    show ?thesis
    proof (cases r)
      case (Raised e)
      with Pair tripleD [OF b \<open>P w\<close>] have "F w1" by simp
      from tripleD [OF h this, of e] Pair Raised show ?thesis
        by (simp add: except_Exception_def)
    qed (use Pair tripleD [OF b \<open>P w\<close>] in \<open>auto simp: except_Exception_def\<close>)
  qed
qed

lemma triple_finally:
  assumes b: "triple P body (\<lambda>_. F) F H" and fin: "\<And>w. F w \<Longrightarrow> F (fin w)"
  shows "triple P (try_finally body fin) (\<lambda>_. F) F H"
proof (rule tripleI)
  fix w assume "P w"
  show "case try_finally body fin w of
          (Done x, w') \<Rightarrow> F w' | (Raised e, w') \<Rightarrow> F w' | (Hung, w') \<Rightarrow> H w'"
  proof (cases "body w")
    case (Pair r w1)
    with tripleD [OF b \<open>P w\<close>] show ?thesis
      by (cases r) (auto simp: try_finally_def fin)
  qed
qed

lemma triple_final:
  "triple P p (\<lambda>_. P) E H \<Longrightarrow> (\<And>w. P w \<Longrightarrow> F w) \<Longrightarrow> triple P p (\<lambda>_. F) E H"
proof (rule tripleI)
  fix w assume "P w"
  assume t: "triple P p (\<lambda>_. P) E H" and pf: "\<And>w. P w \<Longrightarrow> F w"
  show "case p w of (Done x, w') \<Rightarrow> F w' | (Raised e, w') \<Rightarrow> E w' | (Hung, w') \<Rightarrow> H w'"
  proof (cases "p w")
    case (Pair r w1)
    with tripleD [OF t \<open>P w\<close>] show ?thesis
      by (cases r) (auto intro: pf)
  qed
qed

lemma inv_print: "(\<And>w. I w \<Longrightarrow> I (emit (Print m) w)) \<Longrightarrow> triple I (print m) (\<lambda>_. I) E H"
  by (simp add: triple_def print_def)

lemma inv_print_exc: "(\<And>w. I w \<Longrightarrow> I (emit (Traceback e) w)) \<Longrightarrow> triple I (print_exc e) (\<lambda>_. I) E H"
  by (simp add: triple_def print_exc_def)

lemma inv_popen: "(\<And>w. I w \<Longrightarrow> I (emit Spawn w)) \<Longrightarrow> triple I popen (\<lambda>_. I) E H"
  by (simp add: triple_def popen_def)

lemma inv_ret: "triple I (ret x) (\<lambda>_. I) E H"
  by (simp add: triple_def ret_def)

lemma inv_py: "(\<And>w. I w \<Longrightarrow> E w) \<Longrightarrow> triple I (py v) (\<lambda>_. I) E H"
  by (cases v) (simp_all add: triple_def py_def)

lemma inv_print_tools:
  assumes "\<And>w. I w \<Longrightarrow> I (emit (Print ''- {name}: {description}'') w)" and "\<And>w. I w \<Longrightarrow> E w"
  shows "triple I (print_tools ts) (\<lambda>_. I) E H"
  unfolding triple_def
proof (induction ts)
  case Nil
  show ?case by simp
next
  case (Cons t ts)
  show ?case
    by (cases "ebind (py_item t ''name'') (\<lambda>_. py_item t ''description'')")
       (use assms Cons in auto)
qed

lemmas triple_structure = triple_and_then triple_seq triple_if triple_case_sum triple_except triple_finally
lemmas triple_inv = inv_print inv_print_exc inv_popen inv_ret inv_py inv_print_tools

subsection \<open>The conversation of a script\<close>

lemma at_step_on_script: "at_step R env k w \<Longrightarrow> on_script R env w"
  unfolding at_step_def on_script_def by (metis prefixI)

lemma at_step_emit [simp]: "\<not> is_io e \<Longrightarrow> at_step R env k (emit e w) = at_step R env k w"
  by (simp add: at_step_def emit_def)

lemma on_script_emit [simp]: "\<not> is_io e \<Longrightarrow> on_script R env (emit e w) = on_script R env w"
  by (simp add: on_script_def emit_def)

lemma on_script_shutdown [simp]: "on_script R env (shutdown w) = on_script R env w"
  by (simp add: shutdown_def)

lemma round_trip_at_step:
  assumes k: "k < length R" and r: "R ! k = r"
  shows "triple (at_step R env k) (round_trip r) (\<lambda>_. at_step R env (Suc k))
           (on_script R env) (on_script R env)"
proof (rule tripleI)
  fix w assume a: "at_step R env k w"
  from Cons_nth_drop_Suc [OF k] r have R: "drop k R = r # drop (Suc k) R" by simp
  have d: "drop (Suc k) env = tl (drop k env)" by (simp add: drop_Suc tl_drop)
  show "case round_trip r w of
          (Done x, w') \<Rightarrow> at_step R env (Suc k) w'
        | (Raised e, w') \<Rightarrow> on_script R env w'
        | (Hung, w') \<Rightarrow> on_script R env w'"
  proof (cases "drop k env")
    case Nil
    with a k R d show ?thesis
      by (simp add: at_step_def round_trip_def run_defs)
  next
    case (Cons x rest)
    with a k R d show ?thesis
      by (cases x) (auto simp add: at_step_def on_script_def round_trip_def run_defs prefix_def)
  qed
qed

lemma at_step_start: "at_step R env 0 (start env)"
  by (simp add: at_step_def start_def)

lemma triple_run:
  "triple P p (\<lambda>_. F) F F \<Longrightarrow> P w \<Longrightarrow> F (snd (p w))"
  by (cases "p w"; cases "fst (p w)") (auto dest!: tripleD)

lemma final_triple:
  "triple (at_step (final_requests now) env 0) (test_mcp now)
     (\<lambda>_. on_script (final_requests now) env) (on_script (final_requests now) env)
     (on_script (final_requests now) env)"
  unfolding script_defs
  by (rule triple_structure triple_inv round_trip_at_step triple_final
      | (simp add: at_step_on_script requests_defs; fail))+

lemma simple_triple:
  "triple (at_step simple_requests env 0) test_basic_functionality
     (\<lambda>_. on_script simple_requests env) (on_script simple_requests env)
     (on_script simple_requests env)"
  unfolding script_defs
  by (rule triple_structure triple_inv round_trip_at_step triple_final
      | (simp add: at_step_on_script requests_defs; fail))+

lemma mcp_triple:
  "triple (at_step mcp_requests env 0) test_mcp_server
     (\<lambda>_. on_script mcp_requests env) (on_script mcp_requests env)
     (on_script mcp_requests env)"
  unfolding script_defs
  by (rule triple_structure triple_inv round_trip_at_step triple_final
      | (simp add: at_step_on_script requests_defs; fail))+

lemma debug_triple:
  "triple (at_step debug_requests env 0) debug_session
     (\<lambda>_. on_script debug_requests env) (on_script debug_requests env)
     (on_script debug_requests env)"
  unfolding script_defs
  by (rule triple_structure triple_inv round_trip_at_step triple_final
      | (simp add: at_step_on_script requests_defs; fail))+

lemma execution_triple:
  "triple (at_step execution_requests env 0) test_tool_execution
     (\<lambda>_. on_script execution_requests env) (on_script execution_requests env)
     (on_script execution_requests env)"
  unfolding script_defs
  by (rule triple_structure triple_inv round_trip_at_step triple_final
      | (simp add: at_step_on_script requests_defs; fail))+

lemma complete_triple:
  "triple (at_step complete_requests env 0) test_complete
     (\<lambda>_. on_script complete_requests env) (on_script complete_requests env)
     (on_script complete_requests env)"
  unfolding script_defs
  by (rule triple_structure triple_inv round_trip_at_step triple_final
      | (simp add: at_step_on_script requests_defs; fail))+

lemma permissions_triple:
  "triple (at_step permissions_requests env 0) (test_mcp_permissions loads)
     (\<lambda>_. on_script permissions_requests env) (on_script permissions_requests env)
     (on_script permissions_requests env)"
  unfolding script_defs
  by (rule triple_structure triple_inv round_trip_at_step triple_final
      | (simp add: at_step_on_script requests_defs; fail))+

text \<open>Every run of every script is the beginning of the strictly sequential conversation
  of its requests with the server.\<close>

lemma scripts_on_script:
  "on_script simple_requests env (snd (test_basic_functionality (start env)))"
  "on_script permissions_requests env (snd (test_mcp_permissions loads (start env)))"
  "on_script complete_requests env (snd (test_complete (start env)))"
  "on_script (final_requests now) env (snd (test_mcp now (start env)))"
  "on_script mcp_requests env (snd (test_mcp_server (start env)))"
  "on_script execution_requests env (snd (test_tool_execution (start env)))"
  "on_script debug_requests env (snd (debug_session (start env)))"
  using triple_run [OF simple_triple at_step_start]
    triple_run [OF permissions_triple at_step_start]
    triple_run [OF complete_triple at_step_start]
    triple_run [OF final_triple at_step_start]
    triple_run [OF mcp_triple at_step_start]
    triple_run [OF execution_triple at_step_start]
    triple_run [OF debug_triple at_step_start]
  by blast+

subsection \<open>What the conversation implies\<close>

lemma sent_append: "sent (xs @ ys) = sent xs @ sent ys"
  by (induction xs rule: sent.induct) auto

lemma sent_filter_io: "sent (filter is_io t) = sent t"
  by (induction t rule: sent.induct) auto

lemma sent_dialogue: "prefix (sent (dialogue R env)) R"
  by (induction R env rule: dialogue.induct) auto

lemma Write_in_sent: "Write r \<in> set t \<longleftrightarrow> r \<in> set (sent t)"
  by (induction t rule: sent.induct) auto

lemma on_script_sent:
  assumes "on_script R env w"
  shows "prefix (sent (trace w)) R"
proof -
  from assms obtain zs where "dialogue R env = filter is_io (trace w) @ zs"
    by (auto simp: on_script_def prefix_def)
  then have "sent (dialogue R env) = sent (trace w) @ sent zs"
    by (simp add: sent_append sent_filter_io)
  then have "prefix (sent (trace w)) (sent (dialogue R env))"
    by simp
  with sent_dialogue [of R env] show ?thesis
    by (meson prefix_order.trans)
qed

lemma one_at_a_time_filter: "one_at_a_time a (filter is_io t) = one_at_a_time a t"
  by (induction a t rule: one_at_a_time.induct) auto

lemma one_at_a_time_prefix: "one_at_a_time a (xs @ ys) \<Longrightarrow> one_at_a_time a xs"
  by (induction a xs rule: one_at_a_time.induct) auto

lemma one_at_a_time_dialogue: "one_at_a_time False (dialogue R env)"
  by (induction R env rule: dialogue.induct) auto

lemma on_script_one_at_a_time:
  assumes "on_script R env w"
  shows "one_at_a_time False (trace w)"
proof -
  from assms obtain zs where "dialogue R env = filter is_io (trace w) @ zs"
    by (auto simp: on_script_def prefix_def)
  with one_at_a_time_dialogue [of R env]
  have "one_at_a_time False (filter is_io (trace w) @ zs)" by simp
  then have "one_at_a_time False (filter is_io (trace w))"
    by (rule one_at_a_time_prefix)
  then show ?thesis by (simp add: one_at_a_time_filter)
qed

lemma id_of_request [simp]: "id_of (request i m p) = Some i"
  by (simp add: id_of_def request_def)

lemma ids_of_prefix:
  assumes p: "prefix xs R"
    and R: "map id_of R = map (\<lambda>k. Some (int k)) [1..<Suc (length R)]"
  shows "map id_of xs = map (\<lambda>k. Some (int k)) [1..<Suc (length xs)]"
proof -
  from p have len: "length xs \<le> length R" by (rule prefix_length_le)
  from p have "xs = take (length xs) R" by (auto simp: prefix_def)
  then have "map id_of xs = take (length xs) (map id_of R)"
    by (metis take_map)
  also have "\<dots> = map (\<lambda>k. Some (int k)) (take (length xs) [1..<Suc (length R)])"
    by (simp add: R take_map)
  also from len have "take (length xs) [1..<Suc (length R)] = [1..<Suc (length xs)]"
    using take_upt [of 1 "length xs" "Suc (length R)"] by (simp del: upt_Suc)
  finally show ?thesis .
qed

section \<open>Shutdown\<close>




section \<open>The summary of \<^verbatim>\<open>test_simple.py\<close>\<close>






section \<open>The verdicts of \<^verbatim>\<open>test_permissions.py\<close>\<close>











section \<open>Request ids\<close>

lemma requests_ids:
  "map id_of simple_requests = map (\<lambda>k. Some (int k)) [1..<Suc (length simple_requests)]"
  "map id_of permissions_requests = map (\<lambda>k. Some (int k)) [1..<Suc (length permissions_requests)]"
  "map id_of complete_requests = map (\<lambda>k. Some (int k)) [1..<Suc (length complete_requests)]"
  "map id_of (final_requests now) = map (\<lambda>k. Some (int k)) [1..<Suc (length (final_requests now))]"
  "map id_of mcp_requests = map (\<lambda>k. Some (int k)) [1..<Suc (length mcp_requests)]"
  "map id_of execution_requests = map (\<lambda>k. Some (int k)) [1..<Suc (length execution_requests)]"
  "map id_of debug_requests = map (\<lambda>k. Some (int k)) [1..<Suc (length debug_requests)]"
  by (simp_all add: requests_defs init_request_def)

text \<open>
  C7. In every run of each of the seven scripts the ids of the requests written, in the
  order in which they are written, are 1, 2, ..., n, where n is the number of requests
  written: the ids start at 1, go up by one per request, and none is used twice.
\<close>

theorem request_ids_count_up:
  "map id_of (sent (trace (snd (test_basic_functionality (start env))))) =
     map (\<lambda>k. Some (int k)) [1..<Suc (length (sent (trace (snd (test_basic_functionality (start env))))))] \<and>
   map id_of (sent (trace (snd (test_mcp_permissions loads (start env))))) =
     map (\<lambda>k. Some (int k)) [1..<Suc (length (sent (trace (snd (test_mcp_permissions loads (start env))))))] \<and>
   map id_of (sent (trace (snd (test_complete (start env))))) =
     map (\<lambda>k. Some (int k)) [1..<Suc (length (sent (trace (snd (test_complete (start env))))))] \<and>
   map id_of (sent (trace (snd (test_mcp now (start env))))) =
     map (\<lambda>k. Some (int k)) [1..<Suc (length (sent (trace (snd (test_mcp now (start env))))))] \<and>
   map id_of (sent (trace (snd (test_mcp_server (start env))))) =
     map (\<lambda>k. Some (int k)) [1..<Suc (length (sent (trace (snd (test_mcp_server (start env))))))] \<and>
   map id_of (sent (trace (snd (test_tool_execution (start env))))) =
     map (\<lambda>k. Some (int k)) [1..<Suc (length (sent (trace (snd (test_tool_execution (start env))))))] \<and>
   map id_of (sent (trace (snd (debug_session (start env))))) =
     map (\<lambda>k. Some (int k)) [1..<Suc (length (sent (trace (snd (debug_session (start env))))))]"
  by (intro conjI
      ids_of_prefix [OF on_script_sent [OF scripts_on_script(1)] requests_ids(1)]
      ids_of_prefix [OF on_script_sent [OF scripts_on_script(2)] requests_ids(2)]
      ids_of_prefix [OF on_script_sent [OF scripts_on_script(3)] requests_ids(3)]
      ids_of_prefix [OF on_script_sent [OF scripts_on_script(4)] requests_ids(4)]
      ids_of_prefix [OF on_script_sent [OF scripts_on_script(5)] requests_ids(5)]
      ids_of_prefix [OF on_script_sent [OF scripts_on_script(6)] requests_ids(6)]
      ids_of_prefix [OF on_script_sent [OF scripts_on_script(7)] requests_ids(7)])

text \<open>The run of \<^verbatim>\<open>test_final.py\<close> against a server that answers every request writes four
  requests, with the ids 1 to 4.\<close>

theorem request_ids_count_up_witness:
  "map id_of (sent (trace (snd (test_mcp 1762214400 (start healthy_final))))) =
     [Some 1, Some 2, Some 3, Some 4]"
proof -
  have "sent (trace (snd (test_mcp 1762214400 (start healthy_final)))) = final_requests 1762214400"
    by (simp add: script_defs run_defs requests_defs sample_defs healthy_final_def)
  then have len: "length (sent (trace (snd (test_mcp 1762214400 (start healthy_final))))) = 4"
    by (simp add: final_requests_def)
  have "map id_of (sent (trace (snd (test_mcp 1762214400 (start healthy_final))))) =
     map (\<lambda>k. Some (int k))
       [1..<Suc (length (sent (trace (snd (test_mcp 1762214400 (start healthy_final))))))]"
    by (rule request_ids_count_up
        [of healthy_final "\<lambda>_. None" 1762214400, THEN conjunct2, THEN conjunct2, THEN conjunct2,
         THEN conjunct1])
  then show ?thesis unfolding len by (simp add: eval_nat_numeral)
qed


section \<open>One request at a time\<close>

text \<open>
  C2, as the code has it. No script has a \<^verbatim>\<open>ReentrancyError\<close> or any other check on
  outstanding requests. What holds is that in every run of each script a request is
  written only after the \<^verbatim>\<open>readline\<close> that follows the previous request has returned,
  with a line or with the empty string of a closed stream.
\<close>

theorem one_request_at_a_time:
  "one_at_a_time False (trace (snd (test_basic_functionality (start env)))) \<and>
   one_at_a_time False (trace (snd (test_mcp_permissions loads (start env)))) \<and>
   one_at_a_time False (trace (snd (test_complete (start env)))) \<and>
   one_at_a_time False (trace (snd (test_mcp now (start env)))) \<and>
   one_at_a_time False (trace (snd (test_mcp_server (start env)))) \<and>
   one_at_a_time False (trace (snd (test_tool_execution (start env)))) \<and>
   one_at_a_time False (trace (snd (debug_session (start env))))"
  by (intro conjI
      on_script_one_at_a_time [OF scripts_on_script(1)]
      on_script_one_at_a_time [OF scripts_on_script(2)]
      on_script_one_at_a_time [OF scripts_on_script(3)]
      on_script_one_at_a_time [OF scripts_on_script(4)]
      on_script_one_at_a_time [OF scripts_on_script(5)]
      on_script_one_at_a_time [OF scripts_on_script(6)]
      on_script_one_at_a_time [OF scripts_on_script(7)])

text \<open>The four round trips of \<^verbatim>\<open>test_final.py\<close> against a server that answers.\<close>

theorem one_request_at_a_time_witness:
  "sent (trace (snd (test_mcp 1762214400 (start healthy_final)))) = final_requests 1762214400 \<and>
   one_at_a_time False (trace (snd (test_mcp 1762214400 (start healthy_final))))"
proof -
  have "sent (trace (snd (test_mcp 1762214400 (start healthy_final)))) = final_requests 1762214400"
    by (simp add: script_defs run_defs requests_defs sample_defs healthy_final_def)
  with one_request_at_a_time [of healthy_final "\<lambda>_. None" 1762214400, THEN conjunct2, THEN conjunct2,
     THEN conjunct2, THEN conjunct1]
  show ?thesis by (rule conjI [rotated])
qed

text \<open>The claim as written: a second request issued while the first has had no response
  fails with \<^verbatim>\<open>ReentrancyError\<close>. Against a server that has closed its output,
  \<^verbatim>\<open>test_mcp_server\<close> prints ``No response received'' (line 47), writes the second request
  all the same and returns normally.\<close>

theorem reentrancy_counterexample:
  "test_mcp_server (start []) =
     (Done (),
      \<lparr>pending = [],
       trace =
         [Spawn, Print ''Sending initialize request...'',
          Write init_request, Flush, Read Eof, Print ''No response received'',
          Print ''Sending tools/list request...'',
          Write (request 2 ''tools/list'' (JObj [])), Flush, Read Eof,
          Print ''No response received'', Terminate, Wait]\<rparr>) \<and>
   \<not> no_request_while_outstanding False (trace (snd (test_mcp_server (start []))))"
  by (simp add: script_defs run_defs)

section \<open>The parameters of \<^verbatim>\<open>initialize\<close>\<close>

lemma requests_initialize:
  "r \<in> set simple_requests \<Longrightarrow> py_item r ''method'' = Inr (JStr ''initialize'') \<Longrightarrow> initialize_complete r"
  "r \<in> set permissions_requests \<Longrightarrow> py_item r ''method'' = Inr (JStr ''initialize'') \<Longrightarrow> initialize_complete r"
  "r \<in> set complete_requests \<Longrightarrow> py_item r ''method'' = Inr (JStr ''initialize'') \<Longrightarrow> initialize_complete r"
  "r \<in> set (final_requests now) \<Longrightarrow> py_item r ''method'' = Inr (JStr ''initialize'') \<Longrightarrow> initialize_complete r"
  "r \<in> set mcp_requests \<Longrightarrow> py_item r ''method'' = Inr (JStr ''initialize'') \<Longrightarrow> initialize_complete r"
  "r \<in> set debug_requests \<Longrightarrow> py_item r ''method'' = Inr (JStr ''initialize'') \<Longrightarrow>
     r = request 1 ''initialize'' (JObj [])"
  by (auto simp add: requests_defs request_defs initialize_complete_def)

lemma on_script_written:
  "on_script R env w \<Longrightarrow> Write r \<in> set (trace w) \<Longrightarrow> r \<in> set R"
  using on_script_sent [of R env w] by (auto simp: Write_in_sent dest: set_mono_prefix)

text \<open>
  C8, as the code has it. Every \<^verbatim>\<open>initialize\<close> request written by \<^verbatim>\<open>test_simple.py\<close>,
  \<^verbatim>\<open>test_permissions.py\<close>, \<^verbatim>\<open>test_complete.py\<close>, \<^verbatim>\<open>test_final.py\<close> and \<^verbatim>\<open>test_mcp.py\<close>
  carries \<^verbatim>\<open>protocolVersion\<close>, \<^verbatim>\<open>capabilities\<close> and \<^verbatim>\<open>clientInfo\<close> with \<^verbatim>\<open>name\<close> and
  \<^verbatim>\<open>version\<close>. The one written by \<^verbatim>\<open>debug_session.py\<close> has the empty object for its
  parameters.
\<close>

theorem initialize_requests:
  "(Write r \<in> set (trace (snd (test_basic_functionality (start env)))) \<longrightarrow>
      py_item r ''method'' = Inr (JStr ''initialize'') \<longrightarrow> initialize_complete r) \<and>
   (Write r \<in> set (trace (snd (test_mcp_permissions loads (start env)))) \<longrightarrow>
      py_item r ''method'' = Inr (JStr ''initialize'') \<longrightarrow> initialize_complete r) \<and>
   (Write r \<in> set (trace (snd (test_complete (start env)))) \<longrightarrow>
      py_item r ''method'' = Inr (JStr ''initialize'') \<longrightarrow> initialize_complete r) \<and>
   (Write r \<in> set (trace (snd (test_mcp now (start env)))) \<longrightarrow>
      py_item r ''method'' = Inr (JStr ''initialize'') \<longrightarrow> initialize_complete r) \<and>
   (Write r \<in> set (trace (snd (test_mcp_server (start env)))) \<longrightarrow>
      py_item r ''method'' = Inr (JStr ''initialize'') \<longrightarrow> initialize_complete r) \<and>
   (Write r \<in> set (trace (snd (debug_session (start env)))) \<longrightarrow>
      py_item r ''method'' = Inr (JStr ''initialize'') \<longrightarrow> r = request 1 ''initialize'' (JObj []))"
  by (intro conjI impI)
     (erule (1)
        requests_initialize(1) [OF on_script_written [OF scripts_on_script(1)]]
        requests_initialize(2) [OF on_script_written [OF scripts_on_script(2)]]
        requests_initialize(3) [OF on_script_written [OF scripts_on_script(3)]]
        requests_initialize(4) [OF on_script_written [OF scripts_on_script(4)]]
        requests_initialize(5) [OF on_script_written [OF scripts_on_script(5)]]
        requests_initialize(6) [OF on_script_written [OF scripts_on_script(7)]])+

text \<open>Against a server that has closed its output every script still writes its first
  request.\<close>

theorem initialize_requests_witness:
  "Write init_request \<in> set (trace (snd (test_basic_functionality (start [])))) \<and>
   Write init_request \<in> set (trace (snd (test_complete (start [])))) \<and>
   Write init_request \<in> set (trace (snd (test_mcp 0 (start [])))) \<and>
   Write init_request \<in> set (trace (snd (test_mcp_server (start [])))) \<and>
   initialize_complete init_request \<and>
   Write (request 1 ''initialize'' (initialize_params ''permission-test-client''))
     \<in> set (trace (snd (test_mcp_permissions (\<lambda>_. None) (start [])))) \<and>
   initialize_complete (request 1 ''initialize'' (initialize_params ''permission-test-client'')) \<and>
   Write (request 1 ''initialize'' (JObj [])) \<in> set (trace (snd (debug_session (start [])))) \<and>
   py_item (request 1 ''initialize'' (JObj [])) ''method'' = Inr (JStr ''initialize'')"
proof -
  have w1: "Write init_request \<in> set (trace (snd (test_basic_functionality (start []))))"
    and w3: "Write init_request \<in> set (trace (snd (test_complete (start []))))"
    and w4: "Write init_request \<in> set (trace (snd (test_mcp 0 (start []))))"
    and w5: "Write init_request \<in> set (trace (snd (test_mcp_server (start []))))"
    and w2: "Write (request 1 ''initialize'' (initialize_params ''permission-test-client''))
       \<in> set (trace (snd (test_mcp_permissions (\<lambda>_. None) (start []))))"
    and w6: "Write (request 1 ''initialize'' (JObj [])) \<in> set (trace (snd (debug_session (start []))))"
    by (simp_all add: script_defs run_defs)
  have m1: "py_item init_request ''method'' = Inr (JStr ''initialize'')"
    and m2: "py_item (request 1 ''initialize'' (initialize_params ''permission-test-client'')) ''method''
       = Inr (JStr ''initialize'')"
    and m6: "py_item (request 1 ''initialize'' (JObj [])) ''method'' = Inr (JStr ''initialize'')"
    by (simp_all add: request_defs)
  from initialize_requests [of init_request "[]" "\<lambda>_. None" 0] w1 m1
  have c1: "initialize_complete init_request" by blast
  from initialize_requests
    [of "request 1 ''initialize'' (initialize_params ''permission-test-client'')" "[]" "\<lambda>_. None" 0] w2 m2
  have c2: "initialize_complete (request 1 ''initialize'' (initialize_params ''permission-test-client''))"
    by blast
  from w1 w3 w4 w5 c1 w2 c2 w6 m6 show ?thesis by blast
qed

text \<open>The claim as written covers every script. The first request of \<^verbatim>\<open>debug_session.py\<close>
  (line 17) is an \<^verbatim>\<open>initialize\<close> with \<^verbatim>\<open>"params": {}\<close>.\<close>

theorem initialize_params_counterexample:
  "Write (request 1 ''initialize'' (JObj [])) \<in> set (trace (snd (debug_session (start [])))) \<and>
   py_item (request 1 ''initialize'' (JObj [])) ''method'' = Inr (JStr ''initialize'') \<and>
   \<not> initialize_complete (request 1 ''initialize'' (JObj []))"
  by (simp add: script_defs run_defs request_defs initialize_complete_def)

section \<open>Exit codes\<close>












section \<open>Reads without a deadline\<close>

lemma responsive_emit [simp]: "responsive (emit e w) = responsive w"
  by (simp add: responsive_def emit_def)

lemma responsive_shutdown [simp]: "responsive (shutdown w) = responsive w"
  by (simp add: shutdown_def)

lemma running_emit [simp]: "running (emit e w) \<longleftrightarrow> e \<noteq> Terminate \<and> running w"
  by (auto simp add: running_def emit_def)




lemma triple_always: "triple P p (\<lambda>_ _. True) (\<lambda>_. True) (\<lambda>_. True)"
  by (rule tripleI) (auto split: prod.split outcome.split)
























section \<open>Steps after a failed session\<close>

lemma py_item_in: "py_item j k = Inr v \<Longrightarrow> py_in k j = Inr True"
  by (cases j) (auto split: option.splits dest!: map_of_SomeD intro: rev_image_eqI)

lemma complete_skips:
  "\<not> (\<exists>r1 j rest. env = r1 # Line (Json j) # rest \<and> py_in ''result'' j = Inr True) \<Longrightarrow>
   Write (request 3 ''tools/call'' list_directory_params) \<notin> set (trace (snd (test_complete (start env)))) \<and>
   Print ''Tool execution successful!'' \<notin> set (trace (snd (test_complete (start env)))) \<and>
   Print ''Tool execution failed: {tool_response}'' \<notin> set (trace (snd (test_complete (start env))))"
  by (auto simp add: test_complete_def complete_body_def print_initialize_def
      complete_create_session_def run_defs request_def init_request_def
      split: list.split reply.split line.split sum.split)

lemma final_skips:
  "\<not> (\<exists>r1 j rest. env = r1 # Line (Json j) # rest \<and> py_in ''result'' j = Inr True) \<Longrightarrow>
   Write (request 3 ''tools/list'' (JObj [])) \<notin> set (trace (snd (test_mcp now (start env)))) \<and>
   Write (request 4 ''tools/call'' read_file_params) \<notin> set (trace (snd (test_mcp now (start env)))) \<and>
   Print ''Listed {len(tools)} tools'' \<notin> set (trace (snd (test_mcp now (start env)))) \<and>
   Print ''Tools list failed: {tools_response}'' \<notin> set (trace (snd (test_mcp now (start env)))) \<and>
   Print ''File read successful!'' \<notin> set (trace (snd (test_mcp now (start env)))) \<and>
   Print ''File read failed: {read_response}'' \<notin> set (trace (snd (test_mcp now (start env))))"
  by (auto simp add: test_mcp_def final_body_def print_initialize_def
      final_create_session_def run_defs request_def init_request_def
      split: list.split reply.split line.split sum.split)

lemma execution_skips:
  "\<not> (\<exists>r1 j rest. env = r1 # Line (Json j) # rest \<and> py_in ''result'' j = Inr True) \<Longrightarrow>
   Write (request 3 ''tools/call'' list_directory_params) \<notin> set (trace (snd (test_tool_execution (start env)))) \<and>
   Print ''Tool execution successful!'' \<notin> set (trace (snd (test_tool_execution (start env)))) \<and>
   Print ''Tool execution failed: {tool_response}'' \<notin> set (trace (snd (test_tool_execution (start env))))"
  by (auto simp add: test_tool_execution_def execution_body_def
      run_defs request_def init_request_def dest: py_item_in
      split: list.split reply.split line.split sum.split)

text \<open>
  C6, as the code has it. In \<^verbatim>\<open>test_complete.py\<close>, \<^verbatim>\<open>test_final.py\<close> and
  \<^verbatim>\<open>test_tool_execution.py\<close>, when the response to \<^verbatim>\<open>session/create\<close> has no result (or no
  response is decoded at all), none of the later steps is executed: their requests are
  never written and neither their success line nor their failure line is printed. The
  scripts have no ``skipped'' mark; the later steps leave no trace at all.
\<close>

theorem later_steps_not_executed:
  "\<not> (\<exists>r1 j rest. env = r1 # Line (Json j) # rest \<and> py_in ''result'' j = Inr True) \<longrightarrow>
   (Write (request 3 ''tools/call'' list_directory_params) \<notin> set (trace (snd (test_complete (start env)))) \<and>
    Print ''Tool execution successful!'' \<notin> set (trace (snd (test_complete (start env)))) \<and>
    Print ''Tool execution failed: {tool_response}'' \<notin> set (trace (snd (test_complete (start env))))) \<and>
   (Write (request 3 ''tools/list'' (JObj [])) \<notin> set (trace (snd (test_mcp now (start env)))) \<and>
    Write (request 4 ''tools/call'' read_file_params) \<notin> set (trace (snd (test_mcp now (start env)))) \<and>
    Print ''Listed {len(tools)} tools'' \<notin> set (trace (snd (test_mcp now (start env)))) \<and>
    Print ''Tools list failed: {tools_response}'' \<notin> set (trace (snd (test_mcp now (start env)))) \<and>
    Print ''File read successful!'' \<notin> set (trace (snd (test_mcp now (start env)))) \<and>
    Print ''File read failed: {read_response}'' \<notin> set (trace (snd (test_mcp now (start env))))) \<and>
   (Write (request 3 ''tools/call'' list_directory_params)
      \<notin> set (trace (snd (test_tool_execution (start env)))) \<and>
    Print ''Tool execution successful!'' \<notin> set (trace (snd (test_tool_execution (start env)))) \<and>
    Print ''Tool execution failed: {tool_response}'' \<notin> set (trace (snd (test_tool_execution (start env)))))"
  using complete_skips [of env] final_skips [of env now] execution_skips [of env]
  by (intro impI conjI) blast+

text \<open>An initialize response with a result, then an error response to
  \<^verbatim>\<open>session/create\<close>.\<close>

theorem later_steps_not_executed_witness:
  "Write (request 3 ''tools/call'' list_directory_params)
     \<notin> set (trace (snd (test_complete (start
           [Line (Json (result_response 1 initialize_result)),
             Line (Json (error_response 2 (- 32602) ''Invalid params''))])))) \<and>
   Write (request 3 ''tools/list'' (JObj []))
     \<notin> set (trace (snd (test_mcp 0 (start
           [Line (Json (result_response 1 initialize_result)),
             Line (Json (error_response 2 (- 32602) ''Invalid params''))])))) \<and>
   Write (request 3 ''tools/call'' list_directory_params)
     \<notin> set (trace (snd (test_tool_execution (start
           [Line (Json (result_response 1 initialize_result)),
             Line (Json (error_response 2 (- 32602) ''Invalid params''))]))))"
proof -
  have "\<not> (\<exists>r1 j rest.
      [Line (Json (result_response 1 initialize_result)),
             Line (Json (error_response 2 (- 32602) ''Invalid params''))] = r1 # Line (Json j) # rest \<and> py_in ''result'' j = Inr True)"
    by (simp add: sample_defs)
  with later_steps_not_executed
    [of "[Line (Json (result_response 1 initialize_result)),
             Line (Json (error_response 2 (- 32602) ''Invalid params''))]" 0]
  show ?thesis by blast
qed

text \<open>The claim as written has the skipped step marked as skipped. After the failed
  session \<^verbatim>\<open>test_complete\<close> prints the failure of the session (line 84) and shuts down;
  the tool call is not mentioned.\<close>

theorem skipped_mark_counterexample:
  "test_complete (start
           [Line (Json (result_response 1 initialize_result)),
             Line (Json (error_response 2 (- 32602) ''Invalid params''))]) =
     (Done (),
      \<lparr>pending = [],
       trace =
         [Spawn, Write init_request, Flush,
          Read (Json (result_response 1 initialize_result)),
          Print ''Initialize: OK'',
          Write (request 2 ''session/create'' session_params), Flush,
          Read (Json (error_response 2 (- 32602) ''Invalid params'')),
          Print ''Session creation failed: {session_response}'',
          Terminate, Wait]\<rparr>)"
  by (simp add: script_defs run_defs sample_defs)

section \<open>Response ids\<close>

lemma written_emit [simp]: "written r (emit e w) \<longleftrightarrow> e = Write r \<or> written r w"
  by (auto simp add: written_def emit_def)

lemma written_shutdown [simp]: "written r w \<Longrightarrow> written r (shutdown w)"
  by (simp add: shutdown_def)








end
